theory Spec2Isabelle
  imports Main "HOL-Library.Sublist"
begin

section \<open>JavaScript strings\<close>

text \<open>
  A JavaScript string is a sequence of UTF-16 code units. A code unit is modelled by its
  number, a string by the list of its code units; \<open>lit\<close> turns an ASCII literal into
  such a list.
\<close>

type_synonym jsstr = "nat list"

definition lit :: "string \<Rightarrow> jsstr" where
  "lit s = map of_char s"

section \<open>JavaScript values\<close>

text \<open>
  The values a parsed JSON payload can hold in a property, and \<open>undefined\<close> for a
  property that is missing. \<open>JNum\<close> carries integer-valued numbers (versions and
  timestamps are counters and milliseconds). Objects and arrays are left out.
  \<open>truthy\<close> is JavaScript's conversion to a boolean, as in \<^verbatim>\<open>if(theme)\<close>;
  strict equality \<^verbatim>\<open>===\<close> on these values is equality of the datatype;
  \<open>to_string\<close> is the conversion to a string that \<^verbatim>\<open>setAttribute\<close> and
  \<^verbatim>\<open>'theme-'+theme\<close> apply (integers print in decimal, as JavaScript prints them
  below 10^21).
\<close>

datatype jsval = JUndefined | JNull | JBool bool | JNum int | JStr jsstr

fun truthy :: "jsval \<Rightarrow> bool" where
  "truthy JUndefined = False"
| "truthy JNull = False"
| "truthy (JBool b) = b"
| "truthy (JNum n) = (n \<noteq> 0)"
| "truthy (JStr s) = (s \<noteq> [])"

fun show_nat :: "nat \<Rightarrow> jsstr" where
  "show_nat n = (if n < 10 then [48 + n] else show_nat (n div 10) @ [48 + n mod 10])"

declare show_nat.simps [simp del]

definition show_int :: "int \<Rightarrow> jsstr" where
  "show_int i = (if i < 0 then 45 # show_nat (nat (- i)) else show_nat (nat i))"

fun to_string :: "jsval \<Rightarrow> jsstr" where
  "to_string JUndefined = lit ''undefined''"
| "to_string JNull = lit ''null''"
| "to_string (JBool b) = (if b then lit ''true'' else lit ''false'')"
| "to_string (JNum n) = show_int n"
| "to_string (JStr s) = s"

section \<open>The page body: the theme attribute and the class list\<close>

text \<open>
  \<open>applyTheme\<close> touches two things of \<^verbatim>\<open>document.body\<close>: the attribute
  \<^verbatim>\<open>data-theme\<close> and the class attribute.
\<close>

record body =
  data_theme :: "jsstr option"
  className :: jsstr

text \<open>
  The word characters of \<^verbatim>\<open>\w\<close> (letters, digits, underscore) and the ASCII whitespace
  that separates the tokens of a class attribute (tab, line feed, form feed, carriage
  return, space).
\<close>

definition is_word :: "nat \<Rightarrow> bool" where
  "is_word c = ((48 \<le> c \<and> c \<le> 57) \<or> (65 \<le> c \<and> c \<le> 90) \<or> c = 95 \<or> (97 \<le> c \<and> c \<le> 122))"

definition ascii_ws :: "nat \<Rightarrow> bool" where
  "ascii_ws c = (c = 9 \<or> c = 10 \<or> c = 12 \<or> c = 13 \<or> c = 32)"

text \<open>A token that \<^verbatim>\<open>classList.add\<close> accepts: not empty, without ASCII whitespace.\<close>

definition valid_token :: "jsstr \<Rightarrow> bool" where
  "valid_token t = (t \<noteq> [] \<and> \<not> list_ex ascii_ws t)"

text \<open>
  \<^verbatim>\<open>className.replace(/theme-\w+/g, '')\<close>: scanning from the left, wherever the text
  \<^verbatim>\<open>theme-\<close> is followed by a word character, it is deleted together with the longest
  run of word characters after it, and the scan goes on behind the match.
\<close>

definition theme_prefix :: jsstr where
  "theme_prefix = lit ''theme-''"

function strip_theme :: "jsstr \<Rightarrow> jsstr" where
  "strip_theme [] = []"
| "strip_theme (c # cs) =
     (if take 6 (c # cs) = theme_prefix \<and> drop 6 (c # cs) \<noteq> [] \<and> is_word (hd (drop 6 (c # cs)))
      then strip_theme (dropWhile is_word (drop 6 (c # cs)))
      else c # strip_theme cs)"
  by pat_completeness auto
termination
  by (relation "measure length") (auto simp: le_imp_less_Suc length_dropWhile_le [THEN le_trans])

text \<open>
  The class list. The tokens of a class attribute are its maximal runs of characters
  other than ASCII whitespace, without repetitions, in the order of first occurrence;
  a token list is written back joined by single spaces.
\<close>

fun tokens_from :: "jsstr \<Rightarrow> jsstr \<Rightarrow> jsstr list" where
  "tokens_from cur [] = (if cur = [] then [] else [cur])"
| "tokens_from cur (c # cs) =
     (if ascii_ws c then (if cur = [] then tokens_from [] cs else cur # tokens_from [] cs)
      else tokens_from (cur @ [c]) cs)"

definition split_ws :: "jsstr \<Rightarrow> jsstr list" where
  "split_ws s = tokens_from [] s"

fun ordered_set :: "jsstr list \<Rightarrow> jsstr list \<Rightarrow> jsstr list" where
  "ordered_set seen [] = seen"
| "ordered_set seen (t # ts) = ordered_set (if t \<in> set seen then seen else seen @ [t]) ts"

definition class_tokens :: "jsstr \<Rightarrow> jsstr list" where
  "class_tokens s = ordered_set [] (split_ws s)"

fun join_space :: "jsstr list \<Rightarrow> jsstr" where
  "join_space [] = []"
| "join_space [t] = t"
| "join_space (t # ts) = t @ 32 # join_space ts"

datatype dom_exception = DomSyntaxError | InvalidCharacterError

text \<open>
  \<^verbatim>\<open>classList.add(token)\<close>: an empty token and a token with ASCII whitespace throw;
  otherwise the token is appended to the token set unless it is there, and the class
  attribute is rewritten from the token set.
\<close>

definition classList_add :: "jsstr \<Rightarrow> jsstr \<Rightarrow> dom_exception + jsstr" where
  "classList_add token cls =
     (if token = [] then Inl DomSyntaxError
      else if list_ex ascii_ws token then Inl InvalidCharacterError
      else let ts = class_tokens cls
           in Inr (join_space (if token \<in> set ts then ts else ts @ [token])))"

text \<open>
  \<^verbatim>\<open>
  function applyTheme(theme){
    if(!theme) return;
    document.body.setAttribute(APPLY_ATTR, theme);
    document.body.className = document.body.className.replace(/theme-\w+/g,'');
    document.body.classList.add('theme-'+theme);
    if(window.__THEME_DEBUG){ console.log('[theme] applied', theme); }
  }
  \<close>
  The result is the exception thrown, if any, and the body as it then is: when
  \<^verbatim>\<open>classList.add\<close> throws, the two assignments before it have taken place. The
  debug output to the console is not modelled, here and below.
\<close>

definition applyTheme :: "jsval \<Rightarrow> body \<Rightarrow> dom_exception option \<times> body" where
  "applyTheme theme b =
     (if \<not> truthy theme then (None, b)
      else let b1 = b\<lparr>data_theme := Some (to_string theme)\<rparr>;
               b2 = b1\<lparr>className := strip_theme (className b1)\<rparr>
           in case classList_add (theme_prefix @ to_string theme) (className b2) of
                Inl e \<Rightarrow> (Some e, b2)
              | Inr cls \<Rightarrow> (None, b2\<lparr>className := cls\<rparr>))"

section \<open>The theme client\<close>

text \<open>
  What the body of a response, or the data of an event, gives when it is parsed as JSON:
  no value (the text is not JSON and the parser throws), the value \<^verbatim>\<open>null\<close> (reading
  a property of it throws a TypeError), or a value whose properties \<^verbatim>\<open>success\<close>,
  \<^verbatim>\<open>theme\<close> and \<^verbatim>\<open>version\<close> can be read, a missing property reading as
  \<open>JUndefined\<close>.
\<close>

record payload =
  success :: jsval
  theme :: jsval
  version :: jsval

datatype parsed = Unparsable | PNull | PData payload

text \<open>
  The outcome of a request: the promise of \<^verbatim>\<open>fetch\<close> is rejected (a network error),
  or a response arrives, whose body is then parsed.
\<close>

datatype fetched = Rejected | Resolved parsed

text \<open>
  What can be thrown inside the handlers: \<^verbatim>\<open>JSON.parse\<close> or \<^verbatim>\<open>r.json()\<close> on a
  text that is not JSON, a property read on \<^verbatim>\<open>null\<close>, a rejected request, an exception
  of the class list.
\<close>

datatype js_error = JsonSyntaxError | TypeError | NetworkError | DomError dom_exception

datatype es_state = NoEventSource | EsOpen | EsClosed

text \<open>What the client does to the outside: requests, timers, navigation, console output.\<close>

datatype action =
    NewEventSource
  | CloseEventSource
  | FetchTheme
  | SetInterval nat
  | Reload
  | LocationReplace jsstr
  | Alert
  | ConsoleWarn
  | ConsoleError

text \<open>
  The module's variables \<^verbatim>\<open>currentTheme\<close> and \<^verbatim>\<open>currentVersion\<close>, the variable
  \<^verbatim>\<open>initialized\<close> of \<^verbatim>\<open>initSSE\<close>, \<^verbatim>\<open>document.body\<close>, the global
  \<^verbatim>\<open>window.__LAST_THEME_SET\<close> (\<open>None\<close> while it is undefined), the event source and the
  periods of the interval timers that call \<^verbatim>\<open>fetchTheme\<close>.
\<close>

record client =
  currentTheme :: jsval
  currentVersion :: jsval
  initialized :: bool
  doc_body :: body
  LAST_THEME_SET :: "int option"
  es :: es_state
  intervals :: "nat list"

definition init_client :: "body \<Rightarrow> client" where
  "init_client b =
     \<lparr>currentTheme = JNull, currentVersion = JNull, initialized = False, doc_body = b,
      LAST_THEME_SET = None, es = NoEventSource, intervals = []\<rparr>"

definition POLL_INTERVAL :: nat where
  "POLL_INTERVAL = 4000"

definition hardReloadArmed :: bool where
  "hardReloadArmed = True"

text \<open>
  \<^verbatim>\<open>
  function fetchTheme(initial){
    fetch('/api/get-theme', {cache:'no-store'})
      .then(r=>r.json())
      .then(data=>{
        if(!data.success) return;
        if(currentVersion === null){
          currentVersion = data.version; currentTheme = data.theme; applyTheme(currentTheme);
          return;
        }
        if(data.version !== currentVersion){
          currentVersion = data.version; currentTheme = data.theme; applyTheme(currentTheme);
          if(hardReloadArmed){ location.reload(); }
        } else if(data.theme !== currentTheme){
          currentTheme = data.theme; applyTheme(currentTheme);
        }
      })
      .catch(()=>{});
  }
  \<close>
  \<open>fetchTheme\<close> sends the request. \<open>fetchTheme_then\<close> is the callback on the parsed
  data, \<open>fetchTheme_chain\<close> the two \<^verbatim>\<open>then\<close> steps on the outcome of the request:
  both give the error thrown, if any, with the state and the actions at that point.
  \<open>fetchTheme_response\<close> is the whole chain, whose \<^verbatim>\<open>catch\<close> drops the error.
\<close>

definition fetchTheme :: "client \<Rightarrow> client \<times> action list" where
  "fetchTheme st = (st, [FetchTheme])"

definition fetchTheme_then :: "payload \<Rightarrow> client \<Rightarrow> js_error option \<times> client \<times> action list" where
  "fetchTheme_then data st =
     (if \<not> truthy (success data) then (None, st, [])
      else if currentVersion st = JNull then
        (let st1 = st\<lparr>currentVersion := version data, currentTheme := theme data\<rparr>;
             (e, b) = applyTheme (currentTheme st1) (doc_body st1);
             st2 = st1\<lparr>doc_body := b\<rparr>
         in case e of
              Some x \<Rightarrow> (Some (DomError x), st2, [])
            | None \<Rightarrow> (None, st2, []))
      else if version data \<noteq> currentVersion st then
        (let st1 = st\<lparr>currentVersion := version data, currentTheme := theme data\<rparr>;
             (e, b) = applyTheme (currentTheme st1) (doc_body st1);
             st2 = st1\<lparr>doc_body := b\<rparr>
         in case e of
              Some x \<Rightarrow> (Some (DomError x), st2, [])
            | None \<Rightarrow> (None, st2, if hardReloadArmed then [Reload] else []))
      else if theme data \<noteq> currentTheme st then
        (let st1 = st\<lparr>currentTheme := theme data\<rparr>;
             (e, b) = applyTheme (currentTheme st1) (doc_body st1);
             st2 = st1\<lparr>doc_body := b\<rparr>
         in case e of
              Some x \<Rightarrow> (Some (DomError x), st2, [])
            | None \<Rightarrow> (None, st2, []))
      else (None, st, []))"

fun fetchTheme_chain :: "fetched \<Rightarrow> client \<Rightarrow> js_error option \<times> client \<times> action list" where
  "fetchTheme_chain Rejected st = (Some NetworkError, st, [])"
| "fetchTheme_chain (Resolved Unparsable) st = (Some JsonSyntaxError, st, [])"
| "fetchTheme_chain (Resolved PNull) st = (Some TypeError, st, [])"
| "fetchTheme_chain (Resolved (PData data)) st = fetchTheme_then data st"

definition fetchTheme_response :: "fetched \<Rightarrow> client \<Rightarrow> client \<times> action list" where
  "fetchTheme_response outcome st =
     (case fetchTheme_chain outcome st of (e, st1, acts) \<Rightarrow> (st1, acts))"

text \<open>
  \<^verbatim>\<open>const justChanged = window.__LAST_THEME_SET && (Date.now() - window.__LAST_THEME_SET < 500);\<close>
  used as a condition: an undefined or zero timestamp is falsy.
\<close>

definition justChanged :: "int option \<Rightarrow> int \<Rightarrow> bool" where
  "justChanged last_set now =
     (case last_set of None \<Rightarrow> False | Some t \<Rightarrow> t \<noteq> 0 \<and> now - t < 500)"

text \<open>
  The listener of the event \<^verbatim>\<open>theme\<close>, on the parsed \<^verbatim>\<open>evt.data\<close> and the value of
  \<^verbatim>\<open>Date.now()\<close>:
  \<^verbatim>\<open>
  try {
    const data = JSON.parse(evt.data);
    if(!initialized){
      currentVersion = data.version; currentTheme = data.theme; applyTheme(currentTheme);
      initialized = true; return;
    }
    if(data.version !== currentVersion){
      currentVersion = data.version; currentTheme = data.theme; applyTheme(currentTheme);
      const justChanged = ...;
      if(!justChanged){ location.reload(); }
    } else if(data.theme !== currentTheme){
      currentTheme = data.theme; applyTheme(currentTheme);
    }
  } catch(e) { console.warn('Bad theme event payload', e); }
  \<close>
  \<open>on_theme_data\<close> is the code after \<^verbatim>\<open>JSON.parse\<close>, \<open>theme_listener_try\<close> the
  \<^verbatim>\<open>try\<close> block: both give the error thrown, if any, with the state and the actions at
  that point. \<open>on_theme_event\<close> is the listener, whose \<^verbatim>\<open>catch\<close> writes the warning.
\<close>

definition on_theme_data ::
  "payload \<Rightarrow> int \<Rightarrow> client \<Rightarrow> js_error option \<times> client \<times> action list" where
  "on_theme_data data now st =
     (if \<not> initialized st then
        (let st1 = st\<lparr>currentVersion := version data, currentTheme := theme data\<rparr>;
             (e, b) = applyTheme (currentTheme st1) (doc_body st1);
             st2 = st1\<lparr>doc_body := b\<rparr>
         in case e of
              Some x \<Rightarrow> (Some (DomError x), st2, [])
            | None \<Rightarrow> (None, st2\<lparr>initialized := True\<rparr>, []))
      else if version data \<noteq> currentVersion st then
        (let st1 = st\<lparr>currentVersion := version data, currentTheme := theme data\<rparr>;
             (e, b) = applyTheme (currentTheme st1) (doc_body st1);
             st2 = st1\<lparr>doc_body := b\<rparr>
         in case e of
              Some x \<Rightarrow> (Some (DomError x), st2, [])
            | None \<Rightarrow> (None, st2,
                       if \<not> justChanged (LAST_THEME_SET st2) now then [Reload] else []))
      else if theme data \<noteq> currentTheme st then
        (let st1 = st\<lparr>currentTheme := theme data\<rparr>;
             (e, b) = applyTheme (currentTheme st1) (doc_body st1);
             st2 = st1\<lparr>doc_body := b\<rparr>
         in case e of
              Some x \<Rightarrow> (Some (DomError x), st2, [])
            | None \<Rightarrow> (None, st2, []))
      else (None, st, []))"

fun theme_listener_try ::
  "parsed \<Rightarrow> int \<Rightarrow> client \<Rightarrow> js_error option \<times> client \<times> action list" where
  "theme_listener_try Unparsable now st = (Some JsonSyntaxError, st, [])"
| "theme_listener_try PNull now st = (Some TypeError, st, [])"
| "theme_listener_try (PData data) now st = on_theme_data data now st"

definition on_theme_event :: "parsed \<Rightarrow> int \<Rightarrow> client \<Rightarrow> client \<times> action list" where
  "on_theme_event p now st =
     (case theme_listener_try p now st of
        (None, st1, acts) \<Rightarrow> (st1, acts)
      | (Some e, st1, acts) \<Rightarrow> (st1, acts @ [ConsoleWarn]))"

text \<open>
  \<^verbatim>\<open>
  window.__setLocalTheme = function(theme, version){
    if(theme){ applyTheme(theme); }
    if(version){ currentVersion = version; }
    else {
      const newVersion = Date.now().toString();
      currentVersion = newVersion;
      const url = new URL(window.location.href);
      url.searchParams.set('v', newVersion);
      window.location.replace(url.toString());
    }
  }
  \<close>
  The result has the exception that leaves the function, if any. Of the new address only
  the value of its parameter \<^verbatim>\<open>v\<close> is kept.
\<close>

definition setLocalTheme ::
  "jsval \<Rightarrow> jsval \<Rightarrow> int \<Rightarrow> client \<Rightarrow> js_error option \<times> client \<times> action list" where
  "setLocalTheme theme_arg version_arg now st =
     (let (e, b) = (if truthy theme_arg then applyTheme theme_arg (doc_body st)
                    else (None, doc_body st));
          st1 = st\<lparr>doc_body := b\<rparr>
      in case e of
           Some x \<Rightarrow> (Some (DomError x), st1, [])
         | None \<Rightarrow>
             if truthy version_arg then (None, st1\<lparr>currentVersion := version_arg\<rparr>, [])
             else let newVersion = show_int now
                  in (None, st1\<lparr>currentVersion := JStr newVersion\<rparr>,
                      [LocationReplace newVersion]))"

text \<open>
  The admin's theme switcher, \<^verbatim>\<open>selectTheme\<close> of theme-switcher, on the response to its
  POST:
  \<^verbatim>\<open>
  .then(r=>{
    if(r.redirected && r.url.includes('/admin/login')){ alert(...); return; }
    return r.json();
  })
  .then(data=>{
    if(!data || !data.success){ console.warn(...); return; }
    if(window.__setLocalTheme){ window.__setLocalTheme(data.theme, data.version); }
    window.__LAST_THEME_SET = Date.now();
    ...
  })
  .catch(err=>console.error('Theme update error', err));
  \<close>
  \<open>selectTheme_chain\<close> is the two \<^verbatim>\<open>then\<close> steps, with the error thrown, if any;
  \<open>selectTheme_response\<close> is the whole chain, whose \<^verbatim>\<open>catch\<close> writes the error to the
  console. \<open>now_set\<close> is the clock read inside the setter, \<open>now\<close> the clock read after
  it. The theme client's script is taken to be loaded, so that the setter is defined;
  closing the modal dialog, which follows, is not modelled.
\<close>

datatype set_response = RedirectedToLogin | Answer fetched

fun selectTheme_chain ::
  "set_response \<Rightarrow> int \<Rightarrow> int \<Rightarrow> client \<Rightarrow> js_error option \<times> client \<times> action list" where
  "selectTheme_chain RedirectedToLogin now_set now st = (None, st, [Alert, ConsoleWarn])"
| "selectTheme_chain (Answer Rejected) now_set now st = (Some NetworkError, st, [])"
| "selectTheme_chain (Answer (Resolved Unparsable)) now_set now st = (Some JsonSyntaxError, st, [])"
| "selectTheme_chain (Answer (Resolved PNull)) now_set now st = (None, st, [ConsoleWarn])"
| "selectTheme_chain (Answer (Resolved (PData data))) now_set now st =
     (if \<not> truthy (success data) then (None, st, [ConsoleWarn])
      else case setLocalTheme (theme data) (version data) now_set st of
             (Some e, st1, acts) \<Rightarrow> (Some e, st1, acts)
           | (None, st1, acts) \<Rightarrow> (None, st1\<lparr>LAST_THEME_SET := Some now\<rparr>, acts))"

definition selectTheme_response ::
  "set_response \<Rightarrow> int \<Rightarrow> int \<Rightarrow> client \<Rightarrow> client \<times> action list" where
  "selectTheme_response r now_set now st =
     (case selectTheme_chain r now_set now st of
        (None, st1, acts) \<Rightarrow> (st1, acts)
      | (Some e, st1, acts) \<Rightarrow> (st1, acts @ [ConsoleError]))"

text \<open>
  \<^verbatim>\<open>
  function initPolling(){ fetchTheme(true); setInterval(fetchTheme, POLL_INTERVAL); }
  function initSSE(){
    try {
      const es = new EventSource('/events');
      let initialized = false;
      es.addEventListener('theme', ...);
      es.onerror = () => { es.close(); initPolling(); };
    } catch(e){ initPolling(); }
  }
  \<close>
  \<open>initSSE\<close> takes whether the constructor of the event source throws; \<open>es_onerror\<close> is
  the handler of the connection's error event, \<open>interval_fires\<close> a tick of a timer set
  by \<open>initPolling\<close>.
\<close>

definition initPolling :: "client \<Rightarrow> client \<times> action list" where
  "initPolling st =
     (let (st1, acts) = fetchTheme st
      in (st1\<lparr>intervals := intervals st1 @ [POLL_INTERVAL]\<rparr>, acts @ [SetInterval POLL_INTERVAL]))"

definition initSSE :: "bool \<Rightarrow> client \<Rightarrow> client \<times> action list" where
  "initSSE constructor_throws st =
     (if constructor_throws
      then (let (st1, acts) = initPolling st in (st1, NewEventSource # acts))
      else (st\<lparr>es := EsOpen, initialized := False\<rparr>, [NewEventSource]))"

definition es_onerror :: "client \<Rightarrow> client \<times> action list" where
  "es_onerror st =
     (let (st1, acts) = initPolling (st\<lparr>es := EsClosed\<rparr>) in (st1, CloseEventSource # acts))"

definition interval_fires :: "client \<Rightarrow> client \<times> action list" where
  "interval_fires st = fetchTheme st"

text \<open>
  Vocabulary for the statements below.

  \<open>applyTheme\<close> runs to its end on a theme exactly when the theme is truthy and its
  text has no ASCII whitespace (\<open>appliable\<close>). A theme name is a non-empty string of word
  characters, as the names of the application are (coffee, spring, summer, autumn,
  winter).

  The pattern \<^verbatim>\<open>/theme-\w+/\<close> matches at the head of a string (\<open>theme_match_at\<close>, the
  test that \<open>strip_theme\<close> makes) or somewhere in it (\<open>contains_theme_match\<close>): a class
  token in which it matches is a theme class. A class attribute is tidy when the pattern
  matches in its tokens at their heads only, so that a theme class is a token of its
  own, as in \<^verbatim>\<open>class="page theme-coffee"\<close>; \<open>applyTheme\<close> on a theme name keeps
  a tidy class attribute tidy.

  A body shows a theme when its attribute \<^verbatim>\<open>data-theme\<close> is the theme, its class list
  has the token \<^verbatim>\<open>theme-\<close> followed by the theme, and no other token of its class list
  is a theme class.
\<close>

definition appliable :: "jsval \<Rightarrow> bool" where
  "appliable t = (truthy t \<and> \<not> list_ex ascii_ws (to_string t))"

fun theme_name :: "jsval \<Rightarrow> bool" where
  "theme_name (JStr s) = (s \<noteq> [] \<and> list_all is_word s)"
| "theme_name v = False"

definition theme_match_at :: "jsstr \<Rightarrow> bool" where
  "theme_match_at s = (take 6 s = theme_prefix \<and> drop 6 s \<noteq> [] \<and> is_word (hd (drop 6 s)))"

fun contains_theme_match :: "jsstr \<Rightarrow> bool" where
  "contains_theme_match [] = False"
| "contains_theme_match (c # cs) = (theme_match_at (c # cs) \<or> contains_theme_match cs)"

definition tidy_token :: "jsstr \<Rightarrow> bool" where
  "tidy_token t = (\<not> contains_theme_match (tl t))"

definition tidy_classes :: "jsstr \<Rightarrow> bool" where
  "tidy_classes cls = list_all tidy_token (split_ws cls)"

definition shows_theme :: "jsval \<Rightarrow> body \<Rightarrow> bool" where
  "shows_theme t b =
     (data_theme b = Some (to_string t)
      \<and> theme_prefix @ to_string t \<in> set (class_tokens (className b))
      \<and> list_all (\<lambda>c. contains_theme_match c \<longrightarrow> c = theme_prefix @ to_string t)
           (class_tokens (className b)))"




section \<open>Beverage order: updateQuantity\<close>

text \<open>
  \<^verbatim>\<open>
  updateQuantity(beverageId, action) {
      const currentQuantity = this.order.get(beverageId) || 0;
      let newQuantity = currentQuantity;
      if (action === 'increase') {
          newQuantity = currentQuantity + 1;
      } else if (action === 'decrease' && currentQuantity > 0) {
          newQuantity = currentQuantity - 1;
      }
      this.order.set(beverageId, newQuantity);
      this.updateQuantityDisplay(beverageId, newQuantity);
  }
  \<close>
  \<^verbatim>\<open>this.order\<close> is a Map from beverage ids to quantities, empty when the object is
  built and written nowhere else. Quantities are integers (far below the range where a
  JavaScript number stops being exact); \<^verbatim>\<open>get(..) || 0\<close> gives 0 for a missing key.
  The display is updated after the map has been written and is not modelled.
\<close>

definition updateQuantity :: "'k \<Rightarrow> jsval \<Rightarrow> ('k \<rightharpoonup> int) \<Rightarrow> ('k \<rightharpoonup> int)" where
  "updateQuantity beverageId action_arg order =
     (let currentQuantity = (case order beverageId of None \<Rightarrow> 0 | Some q \<Rightarrow> q);
          newQuantity =
            (if action_arg = JStr (lit ''increase'') then currentQuantity + 1
             else if action_arg = JStr (lit ''decrease'') \<and> currentQuantity > 0
             then currentQuantity - 1
             else currentQuantity)
      in order(beverageId \<mapsto> newQuantity))"

text \<open>A sequence of calls, run from the left on the order of a new object.\<close>

fun updateQuantity_calls :: "('k \<times> jsval) list \<Rightarrow> ('k \<rightharpoonup> int) \<Rightarrow> ('k \<rightharpoonup> int)" where
  "updateQuantity_calls [] order = order"
| "updateQuantity_calls ((beverageId, action_arg) # calls) order =
     updateQuantity_calls calls (updateQuantity beverageId action_arg order)"

definition quantity :: "('k \<rightharpoonup> int) \<Rightarrow> 'k \<Rightarrow> int" where
  "quantity order beverageId = (case order beverageId of None \<Rightarrow> 0 | Some q \<Rightarrow> q)"

section \<open>PIN entry: submitPin\<close>

text \<open>
  \<^verbatim>\<open>String.prototype.trim\<close> removes white space and line terminators from both ends:
  tab, line feed, vertical tab, form feed, carriage return, space, no-break space, the
  byte order mark and the space separators of Unicode.
\<close>

definition js_ws :: "nat \<Rightarrow> bool" where
  "js_ws c = (c = 9 \<or> c = 10 \<or> c = 11 \<or> c = 12 \<or> c = 13 \<or> c = 32 \<or> c = 160 \<or> c = 5760
              \<or> (8192 \<le> c \<and> c \<le> 8202) \<or> c = 8232 \<or> c = 8233 \<or> c = 8239 \<or> c = 8287
              \<or> c = 12288 \<or> c = 65279)"

definition trim :: "jsstr \<Rightarrow> jsstr" where
  "trim s = rev (dropWhile js_ws (rev (dropWhile js_ws s)))"

definition is_digit :: "nat \<Rightarrow> bool" where
  "is_digit c = (48 \<le> c \<and> c \<le> 57)"

text \<open>
  \<^verbatim>\<open>/^\d{4}$/.test(pin)\<close>: from the start of the string, \<open>n\<close> digits are consumed, and
  the end of the string must follow.
\<close>

fun match_digits :: "nat \<Rightarrow> jsstr \<Rightarrow> jsstr option" where
  "match_digits 0 s = Some s"
| "match_digits (Suc n) [] = None"
| "match_digits (Suc n) (c # cs) = (if is_digit c then match_digits n cs else None)"

definition test_four_digits :: "jsstr \<Rightarrow> bool" where
  "test_four_digits pin = (match_digits 4 pin = Some [])"

text \<open>
  The requests of the two forms, with the user id and the PIN of their bodies.
\<close>

datatype pin_request = CreateUserPin jsval jsstr | VerifyPin jsval jsstr

text \<open>
  PinManagement (creating a PIN). The state is what \<^verbatim>\<open>submitPin\<close> reads and writes:
  the input's value, the error line (its text, whether it is displayed, and the pending
  timers that hide it after 3000 ms), and the submit button (disabled, showing the
  spinner).
  \<^verbatim>\<open>
  async submitPin() {
      const pin = this.pinInput.value.trim();
      if (!pin) { this.showError('Please enter a PIN'); return; }
      if (pin.length !== 4 || !/^\d{4}$/.test(pin)) {
          this.showError('PIN must be exactly 4 digits'); return;
      }
      this.pinSubmit.disabled = true;
      this.pinSubmit.innerHTML = '<i class="fas fa-spinner fa-spin"></i>';
      try {
          const response = await fetch('/create_user_pin', { ...
              body: JSON.stringify({ user_id: window.userId, pin: pin }) });
          ...
  \<close>
  The model is the function up to its first \<^verbatim>\<open>await\<close>: what it has done when the
  request, if any, is on its way.
\<close>

record pin_management =
  pm_input_value :: jsstr
  pm_error_text :: jsstr
  pm_error_shown :: bool
  pm_hide_timers :: "nat list"
  pm_submit_disabled :: bool
  pm_submit_spinner :: bool

definition pm_showError :: "jsstr \<Rightarrow> pin_management \<Rightarrow> pin_management" where
  "pm_showError message st =
     st\<lparr>pm_error_text := message, pm_error_shown := True,
        pm_hide_timers := pm_hide_timers st @ [3000]\<rparr>"

definition pm_submitPin :: "jsval \<Rightarrow> pin_management \<Rightarrow> pin_management \<times> pin_request list" where
  "pm_submitPin window_userId st =
     (let pin = trim (pm_input_value st)
      in if pin = [] then (pm_showError (lit ''Please enter a PIN'') st, [])
         else if length pin \<noteq> 4 \<or> \<not> test_four_digits pin
         then (pm_showError (lit ''PIN must be exactly 4 digits'') st, [])
         else (st\<lparr>pm_submit_disabled := True, pm_submit_spinner := True\<rparr>,
               [CreateUserPin window_userId pin]))"

text \<open>
  PinAuth (verifying a PIN). \<^verbatim>\<open>currentUser\<close> is null until \<^verbatim>\<open>showPinForUser\<close> opens
  the overlay for a user, and null again when the overlay is hidden.
  \<^verbatim>\<open>
  async submitPin() {
      const pin = this.pinInput.value.trim();
      if (!pin) { this.showError('Please enter a PIN'); return; }
      if (pin.length !== 4 || !/^\d{4}$/.test(pin)) {
          this.showError('PIN must be exactly 4 digits'); return;
      }
      try {
          const response = await fetch('/verify_pin', { ...
              body: JSON.stringify({ user_id: this.currentUser.id, pin: pin }) });
          ...
      } catch (error) {
          this.showError('Network error. Please try again.'); ...
      }
  }
  \<close>
  With no current user, building the body of the request throws a TypeError inside the
  \<^verbatim>\<open>try\<close>, before \<^verbatim>\<open>fetch\<close> is called.
\<close>

record pin_auth =
  pa_input_value :: jsstr
  pa_error_text :: jsstr
  pa_error_shown :: bool
  pa_currentUser :: "(jsval \<times> jsstr) option"

definition pa_showError :: "jsstr \<Rightarrow> pin_auth \<Rightarrow> pin_auth" where
  "pa_showError message st = st\<lparr>pa_error_text := message, pa_error_shown := True\<rparr>"

definition pa_submitPin :: "pin_auth \<Rightarrow> pin_auth \<times> pin_request list" where
  "pa_submitPin st =
     (let pin = trim (pa_input_value st)
      in if pin = [] then (pa_showError (lit ''Please enter a PIN'') st, [])
         else if length pin \<noteq> 4 \<or> \<not> test_four_digits pin
         then (pa_showError (lit ''PIN must be exactly 4 digits'') st, [])
         else case pa_currentUser st of
                None \<Rightarrow> (pa_showError (lit ''Network error. Please try again.'') st, [])
              | Some user \<Rightarrow> (st, [VerifyPin (fst user) pin]))"

text \<open>The reading of "exactly 4 digits" that the statements use.\<close>

definition four_digits :: "jsstr \<Rightarrow> bool" where
  "four_digits s = (length s = 4 \<and> list_all is_digit s)"

section \<open>User search: fuzzyMatch\<close>

text \<open>
  \<^verbatim>\<open>
  fuzzyMatch(text, pattern) {
      let patternIdx = 0;
      let textIdx = 0;
      while (textIdx < text.length && patternIdx < pattern.length) {
          if (text[textIdx] === pattern[patternIdx]) { patternIdx++; }
          textIdx++;
      }
      return patternIdx === pattern.length;
  }
  \<close>
  The loop is the function \<open>fuzzy_loop\<close> on the two indices; it returns the value of
  \<open>patternIdx\<close> when the loop is left. Both indices are in range wherever the
  strings are read.
\<close>

function fuzzy_loop :: "'a list \<Rightarrow> 'a list \<Rightarrow> nat \<Rightarrow> nat \<Rightarrow> nat" where
  "fuzzy_loop text pattern textIdx patternIdx =
     (if textIdx < length text \<and> patternIdx < length pattern
      then fuzzy_loop text pattern (textIdx + 1)
             (if text ! textIdx = pattern ! patternIdx then patternIdx + 1 else patternIdx)
      else patternIdx)"
  by pat_completeness auto
termination
  by (relation "measure (\<lambda>(text, pattern, textIdx, patternIdx). length text - textIdx)") auto

declare fuzzy_loop.simps [simp del]

definition fuzzyMatch :: "'a list \<Rightarrow> 'a list \<Rightarrow> bool" where
  "fuzzyMatch text pattern = (fuzzy_loop text pattern 0 0 = length pattern)"

text \<open>
  The number of pattern characters that a left-to-right greedy scan of the text consumes;
  a proof device, the list view of \<open>fuzzy_loop\<close>.
\<close>

fun greedy :: "'a list \<Rightarrow> 'a list \<Rightarrow> nat" where
  "greedy [] p = 0"
| "greedy (x # t) [] = 0"
| "greedy (x # t) (y # p) = (if x = y then Suc (greedy t p) else greedy t (y # p))"

section \<open>Example inputs\<close>

text \<open>Concrete payloads, pages and forms, used where a statement is run on an input.\<close>

definition msg :: "string \<Rightarrow> string \<Rightarrow> payload" where
  "msg t v = \<lparr>success = JBool True, theme = JStr (lit t), version = JStr (lit v)\<rparr>"

definition empty_body :: body where
  "empty_body = \<lparr>data_theme = None, className = []\<rparr>"

definition polling_after_local_change :: client where
  "polling_after_local_change =
     fst (selectTheme_response (Answer (Resolved (PData (msg ''winter'' ''2'')))) 1000 1000
       (fst (fetchTheme_response (Resolved (PData (msg ''coffee'' ''1'')))
         (fst (initSSE True (init_client empty_body))))))"

definition sse_after_first :: client where
  "sse_after_first =
     fst (on_theme_event (PData (msg ''coffee'' ''1'')) 1000
       (fst (initSSE False (init_client empty_body))))"

definition page_body :: body where
  "page_body = \<lparr>data_theme = Some (lit ''autumn''), className = lit ''page theme-autumn''\<rparr>"

definition page_client :: client where
  "page_client =
     fst (on_theme_event (PData (msg ''coffee'' ''1'')) 1000
       (fst (initSSE False (init_client page_body))))"

definition sse_after_local_change :: client where
  "sse_after_local_change =
     fst (selectTheme_response (Answer (Resolved (PData (msg ''winter'' ''2'')))) 1000 1000
       sse_after_first)"

definition first_poll_pending :: client where
  "first_poll_pending =
     fst (selectTheme_response (Answer (Resolved (PData (msg ''winter'' ''2'')))) 1000 1000
       (fst (initSSE True (init_client empty_body))))"

definition first_event_pending :: client where
  "first_event_pending =
     fst (selectTheme_response (Answer (Resolved (PData (msg ''winter'' ''2'')))) 1000 1000
       (fst (initSSE False (init_client empty_body))))"

definition pm_form :: "string \<Rightarrow> pin_management" where
  "pm_form v = \<lparr>pm_input_value = lit v, pm_error_text = [], pm_error_shown = False,
     pm_hide_timers = [], pm_submit_disabled = False, pm_submit_spinner = False\<rparr>"

definition pa_form :: "string \<Rightarrow> pin_auth" where
  "pa_form v = \<lparr>pa_input_value = lit v, pa_error_text = [], pa_error_shown = False,
     pa_currentUser = Some (JNum 7, lit ''Ada'')\<rparr>"

section \<open>Lemmas: fuzzyMatch\<close>

lemma greedy_Nil2 [simp]: "greedy t [] = 0"
  by (cases t) simp_all

lemma greedy_le: "greedy t p \<le> length p"
  by (induction t p rule: greedy.induct) auto

lemma greedy_subseq: "greedy t p = length p \<longleftrightarrow> subseq p t"
proof (induction t p rule: greedy.induct)
  case (1 p)
  then show ?case by auto
next
  case (2 x t)
  then show ?case by simp
next
  case (3 x t y p)
  show ?case
  proof (cases "x = y")
    case True
    with 3 show ?thesis by simp
  next
    case False
    with 3 show ?thesis by simp
  qed
qed

lemma fuzzy_loop_greedy:
  "i \<le> length t \<Longrightarrow> j \<le> length p \<Longrightarrow>
   fuzzy_loop t p i j = j + greedy (drop i t) (drop j p)"
proof (induction t p i j rule: fuzzy_loop.induct)
  case (1 t p i j)
  show ?case
  proof (cases "i < length t \<and> j < length p")
    case True
    then have dt: "drop i t = t ! i # drop (Suc i) t"
      and dp: "drop j p = p ! j # drop (Suc j) p"
      by (simp_all add: Cons_nth_drop_Suc)
    show ?thesis
    proof (cases "t ! i = p ! j")
      case eq: True
      have "fuzzy_loop t p i j = fuzzy_loop t p (i + 1) (j + 1)"
        using True eq by (subst fuzzy_loop.simps) simp
      also have "\<dots> = (j + 1) + greedy (drop (i + 1) t) (drop (j + 1) p)"
        using "1.IH" [OF True] True eq by simp
      finally show ?thesis using eq dt dp by simp
    next
      case neq: False
      have "fuzzy_loop t p i j = fuzzy_loop t p (i + 1) j"
        using True neq by (subst fuzzy_loop.simps) simp
      also have "\<dots> = j + greedy (drop (i + 1) t) (drop j p)"
        using "1.IH" [OF True] True neq "1.prems" by simp
      finally show ?thesis using neq dt dp by simp
    qed
  next
    case False
    then have "fuzzy_loop t p i j = j"
      by (subst fuzzy_loop.simps) auto
    moreover from False "1.prems" have "drop i t = [] \<or> drop j p = []"
      by auto
    then have "greedy (drop i t) (drop j p) = 0"
      by auto
    ultimately show ?thesis by simp
  qed
qed

lemma fuzzyMatch_greedy: "fuzzyMatch t p \<longleftrightarrow> greedy t p = length p"
  by (simp add: fuzzyMatch_def fuzzy_loop_greedy)

section \<open>Lemmas: the class list and applyTheme\<close>

lemma tokens_from_valid:
  "\<not> list_ex ascii_ws cur \<Longrightarrow> \<forall>t \<in> set (tokens_from cur s). valid_token t"
proof (induction s arbitrary: cur)
  case Nil
  then show ?case by (simp add: valid_token_def)
next
  case (Cons c s)
  have e: "\<forall>t \<in> set (tokens_from [] s). valid_token t"
    by (rule Cons.IH) simp
  show ?case
  proof (cases "ascii_ws c")
    case True
    with e Cons.prems show ?thesis by (simp add: valid_token_def)
  next
    case False
    with Cons.prems have "\<not> list_ex ascii_ws (cur @ [c])" by simp
    from Cons.IH [OF this] False show ?thesis by simp
  qed
qed

lemma split_ws_valid: "t \<in> set (split_ws s) \<Longrightarrow> valid_token t"
  using tokens_from_valid [of "[]" s] by (simp add: split_ws_def)

lemma tokens_from_append:
  "\<not> list_ex ascii_ws t \<Longrightarrow> tokens_from cur (t @ s) = tokens_from (cur @ t) s"
  by (induction t arbitrary: cur) simp_all

lemma ascii_ws_32: "ascii_ws 32"
  by (simp add: ascii_ws_def)

lemma split_ws_join:
  "\<forall>t \<in> set ts. valid_token t \<Longrightarrow> split_ws (join_space ts) = ts"
proof (induction ts rule: join_space.induct)
  case 1
  then show ?case by (simp add: split_ws_def)
next
  case (2 t)
  then have "tokens_from [] (t @ []) = tokens_from ([] @ t) []"
    by (intro tokens_from_append) (simp add: valid_token_def)
  with 2 show ?case by (simp add: split_ws_def valid_token_def)
next
  case (3 t u ts)
  then have v: "valid_token t" and rest: "split_ws (join_space (u # ts)) = u # ts"
    by simp_all
  from v have "tokens_from [] (t @ 32 # join_space (u # ts)) = tokens_from ([] @ t) (32 # join_space (u # ts))"
    by (intro tokens_from_append) (simp add: valid_token_def)
  with v rest show ?case
    by (simp add: split_ws_def valid_token_def ascii_ws_32)
qed

lemma set_ordered_set: "set (ordered_set seen ts) = set seen \<union> set ts"
  by (induction ts arbitrary: seen) auto

lemma set_class_tokens: "set (class_tokens s) = set (split_ws s)"
  by (simp add: class_tokens_def set_ordered_set)

lemma class_tokens_valid: "t \<in> set (class_tokens s) \<Longrightarrow> valid_token t"
  by (simp add: set_class_tokens split_ws_valid)

lemma classList_add_ok:
  assumes "valid_token tok"
  shows "\<exists>cls'. classList_add tok cls = Inr cls' \<and> set (class_tokens cls') = insert tok (set (class_tokens cls))"
proof -
  let ?ts = "class_tokens cls"
  let ?ts' = "if tok \<in> set ?ts then ?ts else ?ts @ [tok]"
  have "\<forall>t \<in> set ?ts'. valid_token t"
    using assms by (auto dest: class_tokens_valid)
  then have "split_ws (join_space ?ts') = ?ts'"
    by (rule split_ws_join)
  then have "set (class_tokens (join_space ?ts')) = insert tok (set ?ts)"
    by (auto simp: set_class_tokens)
  with assms show ?thesis
    by (simp add: classList_add_def valid_token_def Let_def)
qed

lemma theme_prefix_valid: "\<not> list_ex ascii_ws s \<Longrightarrow> valid_token (theme_prefix @ s)"
  by (simp add: valid_token_def theme_prefix_def lit_def ascii_ws_def)

lemma applyTheme_falsy: "\<not> truthy t \<Longrightarrow> applyTheme t b = (None, b)"
  by (simp add: applyTheme_def)

lemma applyTheme_throws:
  "fst (applyTheme t b) \<noteq> None \<longleftrightarrow> truthy t \<and> list_ex ascii_ws (to_string t)"
  by (auto simp: applyTheme_def classList_add_def Let_def theme_prefix_def lit_def ascii_ws_def split: sum.splits)

lemma applyTheme_None_iff: "fst (applyTheme t b) = None \<longleftrightarrow> \<not> truthy t \<or> appliable t"
  using applyTheme_throws [of t b] by (auto simp: appliable_def)

lemma applyTheme_succeeds:
  "appliable t \<Longrightarrow> \<exists>b'. applyTheme t b = (None, b')"
  using applyTheme_None_iff [of t b] by (cases "applyTheme t b") auto

text \<open>Deleting the theme classes, token by token.\<close>

lemma strip_theme_Cons:
  "strip_theme (c # cs) =
     (if theme_match_at (c # cs) then strip_theme (dropWhile is_word (drop 6 (c # cs)))
      else c # strip_theme cs)"
  by (simp add: theme_match_at_def)

lemma theme_match_at_Nil [simp]: "\<not> theme_match_at []"
  by (simp add: theme_match_at_def theme_prefix_def lit_def)

lemma not_word_ws: "ascii_ws c \<Longrightarrow> \<not> is_word c"
  by (auto simp: ascii_ws_def is_word_def)

lemma theme_prefix_length: "length theme_prefix = 6"
  by (simp add: theme_prefix_def lit_def)

lemma theme_prefix_no_ws: "\<not> list_ex ascii_ws theme_prefix"
  by (simp add: theme_prefix_def lit_def ascii_ws_def)

lemma theme_prefix_words: "c \<in> set theme_prefix \<Longrightarrow> c \<noteq> 45 \<Longrightarrow> is_word c"
  by (auto simp: theme_prefix_def lit_def is_word_def)

text \<open>A match looks at the characters before the first whitespace only.\<close>
lemma theme_match_at_append_ws:
  assumes "\<not> list_ex ascii_ws a" "ascii_ws w"
  shows "theme_match_at (a @ w # b) \<longleftrightarrow> theme_match_at a"
proof (cases "length a \<ge> 7")
  case True
  then show ?thesis by (simp add: theme_match_at_def)
next
  case False
  have na: "\<not> theme_match_at a"
  proof
    assume m: "theme_match_at a"
    then have "length (take 6 a) = 6" by (simp add: theme_match_at_def theme_prefix_length)
    with m False show False by (auto simp: theme_match_at_def)
  qed
  have "\<not> theme_match_at (a @ w # b)"
  proof
    assume m: "theme_match_at (a @ w # b)"
    show False
    proof (cases "length a = 6")
      case True
      with m assms(2) show False by (simp add: theme_match_at_def not_word_ws)
    next
      case neq: False
      with False have l: "length a < 6" by simp
      then have "take 6 (a @ w # b) = a @ w # take (5 - length a) b"
        by (simp add: take_Cons')
      then have "w \<in> set (take 6 (a @ w # b))"
        by simp
      with m have "w \<in> set theme_prefix" by (simp add: theme_match_at_def)
      with assms(2) theme_prefix_no_ws show False by (auto simp: list_ex_iff)
    qed
  qed
  with na show ?thesis by simp
qed

lemma strip_theme_append_ws:
  "\<not> list_ex ascii_ws a \<Longrightarrow> ascii_ws w \<Longrightarrow>
   strip_theme (a @ w # b) = strip_theme a @ w # strip_theme b"
proof (induction a rule: strip_theme.induct)
  case 1
  then have "\<not> theme_match_at (w # b)"
    using theme_match_at_append_ws [of "[]" w b] by simp
  then show ?case by (simp add: strip_theme_Cons del: strip_theme.simps(2))
next
  case (2 c cs)
  let ?a = "c # cs"
  have m: "theme_match_at (?a @ w # b) \<longleftrightarrow> theme_match_at ?a"
    using 2(3,4) by (rule theme_match_at_append_ws)
  show ?case
  proof (cases "theme_match_at ?a")
    case True
    let ?r = "dropWhile is_word (drop 6 ?a)"
    have six: "length ?a \<ge> 6"
      using True theme_prefix_length by (auto simp: theme_match_at_def dest: arg_cong [of _ _ length])
    have d: "dropWhile is_word (drop 6 (?a @ w # b)) = ?r @ w # b"
      using six 2(4) by (simp add: dropWhile_append not_word_ws)
    have nr: "\<not> list_ex ascii_ws ?r"
      using 2(3) by (auto simp: list_ex_iff dest!: set_dropWhileD in_set_dropD)
    have ih: "strip_theme (?r @ w # b) = strip_theme ?r @ w # strip_theme b"
      using "2.IH"(1) [OF _ nr 2(4)] True by (simp add: theme_match_at_def)
    have "strip_theme (?a @ w # b) = strip_theme (?r @ w # b)"
      using m True d by (simp add: strip_theme_Cons del: strip_theme.simps(2))
    also have "\<dots> = strip_theme ?r @ w # strip_theme b" by (rule ih)
    also have "strip_theme ?r = strip_theme ?a"
      using True by (simp add: strip_theme_Cons del: strip_theme.simps(2))
    finally show ?thesis .
  next
    case False
    have ih: "strip_theme (cs @ w # b) = strip_theme cs @ w # strip_theme b"
      using "2.IH"(2) 2(3,4) False by (simp add: theme_match_at_def)
    from False m show ?thesis
      using ih by (simp add: strip_theme_Cons del: strip_theme.simps(2))
  qed
qed

lemma set_strip_theme: "set (strip_theme s) \<subseteq> set s"
proof (induction s rule: strip_theme.induct)
  case 1
  then show ?case by simp
next
  case (2 c cs)
  show ?case
  proof (cases "theme_match_at (c # cs)")
    case True
    then have "set (strip_theme (dropWhile is_word (drop 6 (c # cs))))
        \<subseteq> set (dropWhile is_word (drop 6 (c # cs)))"
      using "2.IH"(1) by (simp add: theme_match_at_def)
    also have "\<dots> \<subseteq> set (c # cs)"
      by (auto dest!: set_dropWhileD in_set_dropD)
    finally show ?thesis
      using True by (simp add: strip_theme_Cons del: strip_theme.simps(2))
  next
    case False
    then have "set (strip_theme cs) \<subseteq> set cs"
      using "2.IH"(2) by (simp add: theme_match_at_def)
    with False show ?thesis
      by (auto simp: strip_theme_Cons simp del: strip_theme.simps(2))
  qed
qed

lemma strip_theme_no_ws: "\<not> list_ex ascii_ws s \<Longrightarrow> \<not> list_ex ascii_ws (strip_theme s)"
  using set_strip_theme [of s] by (auto simp: list_ex_iff)

lemma tokens_from_single:
  "\<not> list_ex ascii_ws t \<Longrightarrow> tokens_from [] t = (if t = [] then [] else [t])"
  using tokens_from_append [of t "[]" "[]"] by simp

lemma split_ws_strip_theme_gen:
  "\<not> list_ex ascii_ws cur \<Longrightarrow>
   tokens_from [] (strip_theme (cur @ s))
     = filter (\<lambda>t. t \<noteq> []) (map strip_theme (tokens_from cur s))"
proof (induction s arbitrary: cur)
  case Nil
  then show ?case
    by (simp add: tokens_from_single strip_theme_no_ws)
next
  case (Cons c s)
  show ?case
  proof (cases "ascii_ws c")
    case True
    have rest: "tokens_from [] (strip_theme s)
        = filter (\<lambda>t. t \<noteq> []) (map strip_theme (tokens_from [] s))"
      using Cons.IH [of "[]"] by simp
    have "tokens_from [] (strip_theme (cur @ c # s))
        = tokens_from [] (strip_theme cur @ c # strip_theme s)"
      using Cons.prems True by (simp add: strip_theme_append_ws)
    also have "\<dots> = tokens_from (strip_theme cur) (c # strip_theme s)"
      using tokens_from_append [of "strip_theme cur" "[]"] Cons.prems
      by (simp add: strip_theme_no_ws)
    finally show ?thesis
      using True rest by simp
  next
    case False
    with Cons.prems have "\<not> list_ex ascii_ws (cur @ [c])" by simp
    from Cons.IH [OF this] False show ?thesis by simp
  qed
qed

lemma split_ws_strip_theme:
  "split_ws (strip_theme s) = filter (\<lambda>t. t \<noteq> []) (map strip_theme (split_ws s))"
  using split_ws_strip_theme_gen [of "[]" s] by (simp add: split_ws_def)

lemma strip_theme_id: "\<not> contains_theme_match s \<Longrightarrow> strip_theme s = s"
  by (induction s) (simp_all add: strip_theme_Cons del: strip_theme.simps(2))

lemma contains_drop: "contains_theme_match (drop k s) \<Longrightarrow> contains_theme_match s"
proof (induction s arbitrary: k)
  case Nil
  then show ?case by simp
next
  case (Cons c s)
  then show ?case by (cases k) auto
qed

lemma contains_dropWhile: "contains_theme_match (dropWhile P s) \<Longrightarrow> contains_theme_match s"
  using contains_drop [of "length (takeWhile P s)" s] by (simp add: dropWhile_eq_drop)

lemma tidy_token_strip: "tidy_token t \<Longrightarrow> \<not> contains_theme_match (strip_theme t)"
proof (cases t)
  case Nil
  then show ?thesis by simp
next
  case (Cons c cs)
  assume "tidy_token t"
  with Cons have nc: "\<not> contains_theme_match cs" by (simp add: tidy_token_def)
  show ?thesis
  proof (cases "theme_match_at (c # cs)")
    case True
    let ?r = "dropWhile is_word (drop 6 (c # cs))"
    have "drop 6 (c # cs) = drop 5 cs" by (simp add: drop_Cons')
    with nc have "\<not> contains_theme_match ?r"
      by (auto dest!: contains_dropWhile contains_drop)
    then have "\<not> contains_theme_match (strip_theme ?r)"
      by (simp add: strip_theme_id)
    moreover have "strip_theme (c # cs) = strip_theme ?r"
      using True by (simp only: strip_theme_Cons if_True)
    ultimately show ?thesis
      unfolding Cons by simp
  next
    case False
    with nc have n: "\<not> contains_theme_match (c # cs)" by simp
    then have "strip_theme (c # cs) = c # cs" by (rule strip_theme_id)
    with n show ?thesis unfolding Cons by metis
  qed
qed

lemma tidy_classes_strip:
  "tidy_classes cls \<Longrightarrow> t \<in> set (split_ws (strip_theme cls)) \<Longrightarrow> \<not> contains_theme_match t"
  by (auto simp: split_ws_strip_theme tidy_classes_def list_all_iff tidy_token_strip)



lemma applyTheme_shows:
  assumes "appliable t" "tidy_classes (className b)"
  shows "fst (applyTheme t b) = None \<and> shows_theme t (snd (applyTheme t b))"
proof -
  let ?tok = "theme_prefix @ to_string t"
  let ?s = "strip_theme (className b)"
  from assms(1) have v: "valid_token ?tok"
    by (simp add: appliable_def theme_prefix_valid)
  from classList_add_ok [OF v, of ?s]
  obtain cls' where add: "classList_add ?tok ?s = Inr cls'"
    and toks: "set (class_tokens cls') = insert ?tok (set (class_tokens ?s))"
    by auto
  have excl: "\<forall>c \<in> set (class_tokens cls'). contains_theme_match c \<longrightarrow> c = ?tok"
  proof (intro ballI impI)
    fix c
    assume c: "c \<in> set (class_tokens cls')" and m: "contains_theme_match c"
    show "c = ?tok"
    proof (rule ccontr)
      assume "c \<noteq> ?tok"
      with c toks have "c \<in> set (split_ws ?s)" by (simp add: set_class_tokens)
      from tidy_classes_strip [OF assms(2) this] m show False by simp
    qed
  qed
  have res: "applyTheme t b = (None, b\<lparr>data_theme := Some (to_string t), className := cls'\<rparr>)"
    using add assms(1) by (simp add: applyTheme_def appliable_def)
  show ?thesis
    unfolding res using toks excl by (simp add: shows_theme_def list_all_iff)
qed




section \<open>Lemmas: errors of the handlers\<close>

lemma fetchTheme_then_error:
  "fst (fetchTheme_then data st) = Some e \<Longrightarrow> \<exists>x. e = DomError x"
  by (auto simp: fetchTheme_then_def Let_def split: prod.splits option.splits if_splits)

lemma on_theme_data_error:
  "fst (on_theme_data data now st) = Some e \<Longrightarrow> \<exists>x. e = DomError x"
  by (auto simp: on_theme_data_def Let_def split: prod.splits option.splits if_splits)

text \<open>When a poll reloads the page, and when an event does.\<close>

lemma fetchTheme_reload_iff:
  "Reload \<in> set (snd (fetchTheme_response (Resolved (PData data)) st)) \<longleftrightarrow>
     truthy (success data) \<and> currentVersion st \<noteq> JNull \<and> version data \<noteq> currentVersion st
     \<and> fst (applyTheme (theme data) (doc_body st)) = None"
  by (auto simp: fetchTheme_response_def fetchTheme_then_def Let_def hardReloadArmed_def
      split: prod.splits option.splits if_splits)

lemma on_theme_event_reload_iff:
  "Reload \<in> set (snd (on_theme_event (PData data) now st)) \<longleftrightarrow>
     initialized st \<and> version data \<noteq> currentVersion st
     \<and> \<not> justChanged (LAST_THEME_SET st) now
     \<and> fst (applyTheme (theme data) (doc_body st)) = None"
  by (auto simp: on_theme_event_def on_theme_data_def Let_def
      split: prod.splits option.splits if_splits)





text \<open>The first message on each path, as the handlers test for it.\<close>

lemma first_event_no_reload:
  "\<not> initialized st \<Longrightarrow> Reload \<notin> set (snd (on_theme_event (PData data) now st))"
  by (simp add: on_theme_event_reload_iff)

lemma poll_without_version_no_reload:
  "currentVersion st = JNull \<Longrightarrow> Reload \<notin> set (snd (fetchTheme_response (Resolved (PData data)) st))"
  by (simp add: fetchTheme_reload_iff)

section \<open>Lemmas: updateQuantity and the PIN check\<close>

lemma quantity_updateQuantity:
  "quantity (updateQuantity k a m) k' =
     (if k' = k
      then (if a = JStr (lit ''increase'') then quantity m k + 1
            else if a = JStr (lit ''decrease'') \<and> quantity m k > 0 then quantity m k - 1
            else quantity m k)
      else quantity m k')"
  by (simp add: updateQuantity_def quantity_def Let_def)

lemma updateQuantity_other: "k' \<noteq> k \<Longrightarrow> updateQuantity k a m k' = m k'"
  by (simp add: updateQuantity_def Let_def)

lemma updateQuantity_nonneg:
  "\<forall>q \<in> ran m. 0 \<le> q \<Longrightarrow> \<forall>q \<in> ran (updateQuantity k a m). 0 \<le> q"
proof
  fix q
  assume inv: "\<forall>q \<in> ran m. 0 \<le> q" and "q \<in> ran (updateQuantity k a m)"
  then obtain k' where k': "updateQuantity k a m k' = Some q"
    by (auto simp: ran_def)
  show "0 \<le> q"
  proof (cases "k' = k")
    case True
    have "0 \<le> (case m k of None \<Rightarrow> 0 | Some q \<Rightarrow> q)"
      using inv by (auto simp: ran_def split: option.splits)
    with k' True show ?thesis
      by (auto simp: updateQuantity_def Let_def split: if_splits)
  next
    case False
    with k' have "m k' = Some q" by (simp add: updateQuantity_other)
    with inv show ?thesis by (auto simp: ran_def)
  qed
qed

lemma updateQuantity_calls_nonneg:
  "\<forall>q \<in> ran m. 0 \<le> q \<Longrightarrow> \<forall>q \<in> ran (updateQuantity_calls calls m). 0 \<le> q"
proof (induction calls arbitrary: m)
  case Nil
  then show ?case by simp
next
  case (Cons c calls)
  obtain k a where c: "c = (k, a)" by (cases c)
  from Cons.prems have "\<forall>q \<in> ran (updateQuantity k a m). 0 \<le> q"
    by (rule updateQuantity_nonneg)
  then show ?case unfolding c by (simp add: Cons.IH)
qed

lemma match_digits_iff:
  "match_digits n s = Some [] \<longleftrightarrow> length s = n \<and> list_all is_digit s"
  by (induction n s rule: match_digits.induct) auto

lemma test_four_digits_iff: "test_four_digits s \<longleftrightarrow> four_digits s"
  by (simp add: test_four_digits_def four_digits_def match_digits_iff)

lemma four_digits_nonempty: "four_digits s \<Longrightarrow> s \<noteq> []"
  by (auto simp: four_digits_def)

section \<open>Lemmas: example inputs\<close>




text \<open>The five themes of the application are theme names and can all be applied.\<close>

lemma seasonal_themes_appliable:
  "list_all (\<lambda>name. theme_name (JStr (lit name)) \<and> appliable (JStr (lit name)))
     [''coffee'', ''spring'', ''summer'', ''autumn'', ''winter'']"
  by (simp add: appliable_def lit_def ascii_ws_def is_word_def)


lemma theme_name_winter: "theme_name (JStr (lit ''winter''))"
  by (simp add: lit_def is_word_def)

text \<open>
  On a body without classes the class attribute is the theme's class and nothing else:
  the class of the theme before is removed.
\<close>

lemma applyTheme_replaces_class:
  "applyTheme (JStr (lit ''winter''))
     (snd (applyTheme (JStr (lit ''coffee'')) empty_body))
   = (None, \<lparr>data_theme = Some (lit ''winter''), className = lit ''theme-winter''\<rparr>)"
  by code_simp

section \<open>Verified properties\<close>

text \<open>
  C1: a theme message is to reload the page exactly when its version differs from the
  recorded one and no local theme change lies in the 500 ms before it, on the polling
  path as on the event listener's. The polling path does not keep this. A polling client
  has taken coffee with version 1 from its first response; its admin changes the theme
  at time 1000 and the setter records version 2; the response with version 3 that is
  handled at time 1100, inside the grace window, reloads the page. The event listener in
  the same situation does not reload.
\<close>

theorem poll_reloads_inside_grace_window:
  "currentVersion polling_after_local_change = JStr (lit ''2'')
   \<and> LAST_THEME_SET polling_after_local_change = Some 1000
   \<and> justChanged (LAST_THEME_SET polling_after_local_change) 1100
   \<and> snd (fetchTheme_response (Resolved (PData (msg ''spring'' ''3''))) polling_after_local_change)
       = [Reload]
   \<and> initialized sse_after_local_change
   \<and> currentVersion sse_after_local_change = JStr (lit ''2'')
   \<and> LAST_THEME_SET sse_after_local_change = Some 1000
   \<and> snd (on_theme_event (PData (msg ''spring'' ''3'')) 1100 sse_after_local_change) = []"
  by code_simp

text \<open>
  C2: the first theme message after page load is never to reload the page, on the
  polling path as on the event listener's. The polling path does not keep this: it
  takes a response for the first one when no version is recorded, and the local setter
  records one. A client that polls from page load on, whose admin changes the theme
  before any response has been handled, reloads on the first response it handles when
  that carries another version. The event listener in the same situation records the
  message and does not reload.
\<close>

theorem first_poll_after_local_change_reloads:
  "currentVersion (fst (initSSE True (init_client empty_body))) = JNull
   \<and> currentVersion first_poll_pending = JStr (lit ''2'')
   \<and> snd (fetchTheme_response (Resolved (PData (msg ''spring'' ''3''))) first_poll_pending)
       = [Reload]
   \<and> \<not> initialized first_event_pending
   \<and> currentVersion first_event_pending = JStr (lit ''2'')
   \<and> snd (on_theme_event (PData (msg ''spring'' ''3'')) 9000 first_event_pending) = []"
  by code_simp

text \<open>
  C3: a theme message whose version equals the recorded version and whose theme differs
  from the current theme changes the theme that the page shows and does not reload the
  page, on the event listener's path and, for a successful response, on the polling
  path. The version stays, the theme is recorded, and the body is what \<open>applyTheme\<close>
  makes of it: for a theme that can be applied and a tidy class attribute, the attribute
  \<^verbatim>\<open>data-theme\<close> is the theme, the class of the theme is in the class list and no
  class of another theme is left there.
\<close>

theorem theme_change_same_version:
  "(version data = currentVersion st \<and> theme data \<noteq> currentTheme st \<longrightarrow>
      Reload \<notin> set (snd (on_theme_event (PData data) now st))
      \<and> currentVersion (fst (on_theme_event (PData data) now st)) = currentVersion st
      \<and> currentTheme (fst (on_theme_event (PData data) now st)) = theme data
      \<and> doc_body (fst (on_theme_event (PData data) now st))
          = snd (applyTheme (theme data) (doc_body st))
      \<and> (appliable (theme data) \<and> tidy_classes (className (doc_body st)) \<longrightarrow>
           shows_theme (theme data) (doc_body (fst (on_theme_event (PData data) now st)))))
   \<and> (truthy (success data) \<and> version data = currentVersion st \<and> theme data \<noteq> currentTheme st \<longrightarrow>
      snd (fetchTheme_response (Resolved (PData data)) st) = []
      \<and> currentVersion (fst (fetchTheme_response (Resolved (PData data)) st)) = currentVersion st
      \<and> currentTheme (fst (fetchTheme_response (Resolved (PData data)) st)) = theme data
      \<and> doc_body (fst (fetchTheme_response (Resolved (PData data)) st))
          = snd (applyTheme (theme data) (doc_body st))
      \<and> (appliable (theme data) \<and> tidy_classes (className (doc_body st)) \<longrightarrow>
           shows_theme (theme data) (doc_body (fst (fetchTheme_response (Resolved (PData data)) st)))))"
proof -
  have sse: "version data = currentVersion st \<Longrightarrow> theme data \<noteq> currentTheme st \<Longrightarrow>
      Reload \<notin> set (snd (on_theme_event (PData data) now st))
      \<and> currentVersion (fst (on_theme_event (PData data) now st)) = currentVersion st
      \<and> currentTheme (fst (on_theme_event (PData data) now st)) = theme data
      \<and> doc_body (fst (on_theme_event (PData data) now st))
          = snd (applyTheme (theme data) (doc_body st))"
    by (auto simp: on_theme_event_def on_theme_data_def Let_def split: prod.splits option.splits)
  have poll: "truthy (success data) \<Longrightarrow> version data = currentVersion st \<Longrightarrow>
      theme data \<noteq> currentTheme st \<Longrightarrow>
      snd (fetchTheme_response (Resolved (PData data)) st) = []
      \<and> currentVersion (fst (fetchTheme_response (Resolved (PData data)) st)) = currentVersion st
      \<and> currentTheme (fst (fetchTheme_response (Resolved (PData data)) st)) = theme data
      \<and> doc_body (fst (fetchTheme_response (Resolved (PData data)) st))
          = snd (applyTheme (theme data) (doc_body st))"
    by (auto simp: fetchTheme_response_def fetchTheme_then_def Let_def
        split: prod.splits option.splits)
  have sh: "appliable (theme data) \<Longrightarrow> tidy_classes (className (doc_body st)) \<Longrightarrow>
      shows_theme (theme data) (snd (applyTheme (theme data) (doc_body st)))"
    using applyTheme_shows [of "theme data" "doc_body st"] by simp
  show ?thesis
    using sse poll sh by metis
qed

theorem theme_change_same_version_witness:
  "version (msg ''winter'' ''1'') = currentVersion page_client
   \<and> theme (msg ''winter'' ''1'') \<noteq> currentTheme page_client
   \<and> truthy (success (msg ''winter'' ''1''))
   \<and> appliable (theme (msg ''winter'' ''1''))
   \<and> tidy_classes (className (doc_body page_client))
   \<and> className (doc_body page_client) = lit ''page theme-coffee''
   \<and> Reload \<notin> set (snd (on_theme_event (PData (msg ''winter'' ''1'')) 2000 page_client))
   \<and> shows_theme (theme (msg ''winter'' ''1''))
        (doc_body (fst (on_theme_event (PData (msg ''winter'' ''1'')) 2000 page_client)))
   \<and> snd (fetchTheme_response (Resolved (PData (msg ''winter'' ''1''))) page_client) = []
   \<and> shows_theme (theme (msg ''winter'' ''1''))
        (doc_body (fst (fetchTheme_response (Resolved (PData (msg ''winter'' ''1''))) page_client)))"
proof -
  have h: "version (msg ''winter'' ''1'') = currentVersion page_client
   \<and> theme (msg ''winter'' ''1'') \<noteq> currentTheme page_client
   \<and> truthy (success (msg ''winter'' ''1''))
   \<and> appliable (theme (msg ''winter'' ''1''))
   \<and> tidy_classes (className (doc_body page_client))
   \<and> className (doc_body page_client) = lit ''page theme-coffee''"
    by code_simp
  from theme_change_same_version [of "msg ''winter'' ''1''" page_client 2000] h
  show ?thesis by blast
qed



text \<open>
  C5: on load the client first opens the event source. If the constructor throws, no
  subscription exists and the client polls; if the connection reports an error, the
  client closes the event source and polls. Polling is one request at once and a timer
  of 4000 ms whose ticks send the request again.
\<close>

theorem fallback_to_polling:
  "snd (initSSE False st) = [NewEventSource]
   \<and> es (fst (initSSE False st)) = EsOpen
   \<and> intervals (fst (initSSE False st)) = intervals st
   \<and> snd (initSSE True st) = [NewEventSource, FetchTheme, SetInterval 4000]
   \<and> es (fst (initSSE True st)) = es st
   \<and> intervals (fst (initSSE True st)) = intervals st @ [4000]
   \<and> snd (es_onerror st) = [CloseEventSource, FetchTheme, SetInterval 4000]
   \<and> es (fst (es_onerror st)) = EsClosed
   \<and> intervals (fst (es_onerror st)) = intervals st @ [4000]
   \<and> interval_fires st = (st, [FetchTheme])"
  by (simp add: initSSE_def es_onerror_def initPolling_def fetchTheme_def interval_fires_def
      POLL_INTERVAL_def)

theorem fallback_to_polling_witness:
  "snd (initSSE True (init_client empty_body)) = [NewEventSource, FetchTheme, SetInterval 4000]
   \<and> intervals (fst (initSSE True (init_client empty_body))) = [4000]
   \<and> snd (es_onerror (fst (initSSE False (init_client empty_body))))
       = [CloseEventSource, FetchTheme, SetInterval 4000]
   \<and> es (fst (es_onerror (fst (initSSE False (init_client empty_body))))) = EsClosed"
  using fallback_to_polling [of "init_client empty_body"]
    fallback_to_polling [of "fst (initSSE False (init_client empty_body))"]
  by (simp add: init_client_def)

text \<open>
  C6: a failed poll (network error, or a body that is not JSON or is null) changes
  nothing and does nothing, and the next tick of the timer sends the request again; an
  event whose data is not JSON or is null changes nothing and only writes a warning to
  the console; an error of the connection leaves the theme, the version and the page
  as they are, closes the event source and starts polling.
\<close>

theorem errors_swallowed:
  "(fst (fetchTheme_chain outcome st) \<in> {Some NetworkError, Some JsonSyntaxError, Some TypeError} \<longrightarrow>
      fetchTheme_response outcome st = (st, [])
      \<and> interval_fires (fst (fetchTheme_response outcome st)) = (st, [FetchTheme]))
   \<and> (fst (theme_listener_try p now st) \<in> {Some JsonSyntaxError, Some TypeError} \<longrightarrow>
      on_theme_event p now st = (st, [ConsoleWarn]))
   \<and> currentTheme (fst (es_onerror st)) = currentTheme st
   \<and> currentVersion (fst (es_onerror st)) = currentVersion st
   \<and> doc_body (fst (es_onerror st)) = doc_body st
   \<and> es (fst (es_onerror st)) = EsClosed
   \<and> snd (es_onerror st) = [CloseEventSource, FetchTheme, SetInterval POLL_INTERVAL]"
proof -
  have poll: "fetchTheme_response outcome st = (st, [])"
    if "fst (fetchTheme_chain outcome st) \<in> {Some NetworkError, Some JsonSyntaxError, Some TypeError}"
  proof (cases outcome)
    case Rejected
    then show ?thesis by (simp add: fetchTheme_response_def)
  next
    case (Resolved q)
    show ?thesis
    proof (cases q)
      case (PData data)
      with Resolved that fetchTheme_then_error [of data st] show ?thesis by auto
    qed (simp_all add: Resolved fetchTheme_response_def)
  qed
  have sse: "on_theme_event p now st = (st, [ConsoleWarn])"
    if "fst (theme_listener_try p now st) \<in> {Some JsonSyntaxError, Some TypeError}"
  proof (cases p)
    case (PData data)
    with that on_theme_data_error [of data now st] show ?thesis by auto
  qed (simp_all add: on_theme_event_def)
  show ?thesis
    using poll sse
    by (simp add: es_onerror_def initPolling_def fetchTheme_def interval_fires_def)
qed

theorem errors_swallowed_witness:
  "fst (fetchTheme_chain Rejected sse_after_first) = Some NetworkError
   \<and> fetchTheme_response Rejected sse_after_first = (sse_after_first, [])
   \<and> fst (fetchTheme_chain (Resolved Unparsable) sse_after_first) = Some JsonSyntaxError
   \<and> fetchTheme_response (Resolved Unparsable) sse_after_first = (sse_after_first, [])
   \<and> fst (theme_listener_try Unparsable 3000 sse_after_first) = Some JsonSyntaxError
   \<and> on_theme_event Unparsable 3000 sse_after_first = (sse_after_first, [ConsoleWarn])
   \<and> currentVersion (fst (es_onerror sse_after_first)) = currentVersion sse_after_first"
proof -
  have h: "fst (fetchTheme_chain Rejected sse_after_first) = Some NetworkError"
    "fst (fetchTheme_chain (Resolved Unparsable) sse_after_first) = Some JsonSyntaxError"
    "fst (theme_listener_try Unparsable 3000 sse_after_first) = Some JsonSyntaxError"
    by simp_all
  from errors_swallowed [of Rejected sse_after_first Unparsable 3000]
    errors_swallowed [of "Resolved Unparsable" sse_after_first Unparsable 3000] h
  show ?thesis by simp
qed

text \<open>
  C7: when the admin's theme change succeeds with a theme that can be applied and a
  truthy version, the local setter applies the theme and records the version without
  any navigation or reload: on a tidy class attribute the page then shows the theme and
  no other. The switcher then records the time of the change in
  \<^verbatim>\<open>window.__LAST_THEME_SET\<close>; an event that arrives less than 500 ms later finds the
  change recent and does not reload, and from 500 ms on the change is no longer recent.
\<close>

theorem local_setter:
  "truthy (success data) \<and> appliable (theme data) \<and> truthy (version data) \<longrightarrow>
     setLocalTheme (theme data) (version data) now_set st
       = (None, st\<lparr>doc_body := snd (applyTheme (theme data) (doc_body st)),
                   currentVersion := version data\<rparr>, [])
     \<and> (tidy_classes (className (doc_body st)) \<longrightarrow>
          shows_theme (theme data) (snd (applyTheme (theme data) (doc_body st))))
     \<and> selectTheme_response (Answer (Resolved (PData data))) now_set now st
       = (st\<lparr>doc_body := snd (applyTheme (theme data) (doc_body st)),
              currentVersion := version data, LAST_THEME_SET := Some now\<rparr>, [])
     \<and> (now \<noteq> 0 \<and> later - now < 500 \<longrightarrow>
          justChanged (LAST_THEME_SET (fst (selectTheme_response (Answer (Resolved (PData data))) now_set now st))) later
          \<and> Reload \<notin> set (snd (on_theme_event (PData next_data) later (fst (selectTheme_response (Answer (Resolved (PData data))) now_set now st)))))
     \<and> (500 \<le> later - now \<longrightarrow>
          \<not> justChanged (LAST_THEME_SET (fst (selectTheme_response (Answer (Resolved (PData data))) now_set now st))) later)"
proof (intro impI)
  assume a: "truthy (success data) \<and> appliable (theme data) \<and> truthy (version data)"
  from a applyTheme_succeeds [of "theme data" "doc_body st"]
  obtain b where ap: "applyTheme (theme data) (doc_body st) = (None, b)"
    by auto
  have sh: "tidy_classes (className (doc_body st)) \<Longrightarrow> shows_theme (theme data) b"
    using a applyTheme_shows [of "theme data" "doc_body st"] ap by simp
  from a have tr: "truthy (theme data)" by (simp add: appliable_def)
  have set: "setLocalTheme (theme data) (version data) now_set st
       = (None, st\<lparr>doc_body := b, currentVersion := version data\<rparr>, [])"
    using a tr ap by (simp add: setLocalTheme_def Let_def)
  have sel: "selectTheme_response (Answer (Resolved (PData data))) now_set now st
       = (st\<lparr>doc_body := b, currentVersion := version data, LAST_THEME_SET := Some now\<rparr>, [])"
    using a set by (simp add: selectTheme_response_def)
  show "setLocalTheme (theme data) (version data) now_set st
       = (None, st\<lparr>doc_body := snd (applyTheme (theme data) (doc_body st)),
                   currentVersion := version data\<rparr>, [])
     \<and> (tidy_classes (className (doc_body st)) \<longrightarrow>
          shows_theme (theme data) (snd (applyTheme (theme data) (doc_body st))))
     \<and> selectTheme_response (Answer (Resolved (PData data))) now_set now st
       = (st\<lparr>doc_body := snd (applyTheme (theme data) (doc_body st)),
              currentVersion := version data, LAST_THEME_SET := Some now\<rparr>, [])
     \<and> (now \<noteq> 0 \<and> later - now < 500 \<longrightarrow>
          justChanged (LAST_THEME_SET (fst (selectTheme_response (Answer (Resolved (PData data))) now_set now st))) later
          \<and> Reload \<notin> set (snd (on_theme_event (PData next_data) later (fst (selectTheme_response (Answer (Resolved (PData data))) now_set now st)))))
     \<and> (500 \<le> later - now \<longrightarrow>
          \<not> justChanged (LAST_THEME_SET (fst (selectTheme_response (Answer (Resolved (PData data))) now_set now st))) later)"
    unfolding sel set using sh
    by (auto simp: ap justChanged_def on_theme_event_def on_theme_data_def Let_def
        split: prod.splits option.splits)
qed

theorem local_setter_witness:
  "truthy (success (msg ''winter'' ''2''))
   \<and> appliable (theme (msg ''winter'' ''2''))
   \<and> truthy (version (msg ''winter'' ''2''))
   \<and> tidy_classes (className (doc_body page_client))
   \<and> className (doc_body page_client) = lit ''page theme-coffee''
   \<and> (1000::int) \<noteq> 0 \<and> (1100::int) - 1000 < 500 \<and> (500::int) \<le> 1600 - 1000
   \<and> snd (selectTheme_response (Answer (Resolved (PData (msg ''winter'' ''2'')))) 999 1000 page_client) = []
   \<and> shows_theme (theme (msg ''winter'' ''2''))
        (doc_body (fst (selectTheme_response (Answer (Resolved (PData (msg ''winter'' ''2'')))) 999 1000 page_client)))
   \<and> LAST_THEME_SET (fst (selectTheme_response (Answer (Resolved (PData (msg ''winter'' ''2'')))) 999 1000 page_client))
       = Some 1000
   \<and> Reload \<notin> set (snd (on_theme_event (PData (msg ''spring'' ''3'')) 1100
        (fst (selectTheme_response (Answer (Resolved (PData (msg ''winter'' ''2'')))) 999 1000 page_client))))
   \<and> \<not> justChanged (LAST_THEME_SET
        (fst (selectTheme_response (Answer (Resolved (PData (msg ''winter'' ''2'')))) 999 1000 page_client))) 1600"
proof -
  have h: "truthy (success (msg ''winter'' ''2''))
   \<and> appliable (theme (msg ''winter'' ''2''))
   \<and> truthy (version (msg ''winter'' ''2''))"
    and td: "tidy_classes (className (doc_body page_client))"
    and cl: "className (doc_body page_client) = lit ''page theme-coffee''"
    by code_simp+
  have t: "(1000::int) \<noteq> 0 \<and> (1100::int) - 1000 < 500" and t2: "(500::int) \<le> 1600 - 1000"
    by simp_all
  note inst = local_setter [rule_format, OF h, where st = page_client and now_set = 999 and now = 1000]
  from inst [where later = 1100 and next_data = "msg ''spring'' ''3''"]
    inst [where later = 1600 and next_data = "msg ''spring'' ''3''"] h td cl t t2
  show ?thesis by auto
qed

text \<open>
  C8: \<open>fuzzyMatch text pattern\<close> is true exactly when the pattern is a subsequence of
  the text (its characters occur in the text in order, not necessarily next to each
  other). In particular the empty pattern matches every text, and a pattern longer than
  the text matches nothing.
\<close>

theorem fuzzyMatch_subseq:
  "(fuzzyMatch text pattern \<longleftrightarrow> subseq pattern text)
   \<and> fuzzyMatch text []
   \<and> (length text < length pattern \<longrightarrow> \<not> fuzzyMatch text pattern)"
  by (simp add: fuzzyMatch_greedy greedy_subseq)

theorem fuzzyMatch_subseq_witness:
  "fuzzyMatch (lit ''laurin'') (lit ''lrn'') \<and> subseq (lit ''lrn'') (lit ''laurin'')
   \<and> fuzzyMatch (lit ''laurin'') []
   \<and> length (lit ''ab'') < length (lit ''abc'') \<and> \<not> fuzzyMatch (lit ''ab'') (lit ''abc'')"
proof -
  have s: "subseq (lit ''lrn'') (lit ''laurin'')"
    by (simp add: lit_def)
  have l: "length (lit ''ab'') < length (lit ''abc'')"
    by (simp add: lit_def)
  from fuzzyMatch_subseq [of "lit ''laurin''" "lit ''lrn''"] s
    fuzzyMatch_subseq [of "lit ''ab''" "lit ''abc''"] l
  show ?thesis by blast
qed

text \<open>
  C9: after any sequence of calls of \<open>updateQuantity\<close> on the order of a new object,
  every stored quantity is a non-negative integer, and one call keeps that property.
  A call with \<^verbatim>\<open>increase\<close> adds 1 to the quantity of its beverage, a call with
  \<^verbatim>\<open>decrease\<close> subtracts 1 when that quantity is positive, any other call leaves it
  as it is, and no call touches another beverage.
\<close>

theorem order_quantities_nonneg:
  "(\<forall>q \<in> ran (updateQuantity_calls calls Map.empty). 0 \<le> q)
   \<and> ((\<forall>q \<in> ran order. 0 \<le> q) \<longrightarrow> (\<forall>q \<in> ran (updateQuantity beverageId action_arg order). 0 \<le> q))
   \<and> quantity (updateQuantity beverageId action_arg order) beverageId =
       (if action_arg = JStr (lit ''increase'') then quantity order beverageId + 1
        else if action_arg = JStr (lit ''decrease'') \<and> quantity order beverageId > 0
        then quantity order beverageId - 1
        else quantity order beverageId)
   \<and> (\<forall>other. other \<noteq> beverageId \<longrightarrow> updateQuantity beverageId action_arg order other = order other)"
proof -
  have "\<forall>q \<in> ran (updateQuantity_calls calls Map.empty). 0 \<le> q"
    by (rule updateQuantity_calls_nonneg) simp
  then show ?thesis
    using updateQuantity_nonneg [of order beverageId action_arg]
    by (simp add: quantity_updateQuantity updateQuantity_other)
qed

theorem order_quantities_nonneg_witness:
  "quantity (updateQuantity (1::nat) (JStr (lit ''decrease'')) (Map.empty(1 \<mapsto> 1))) 1 = 0
   \<and> quantity (updateQuantity (1::nat) (JStr (lit ''decrease'')) (Map.empty(1 \<mapsto> 0))) 1 = 0
   \<and> quantity (updateQuantity (1::nat) (JStr (lit ''increase'')) (Map.empty(1 \<mapsto> 1))) 1 = 2
   \<and> quantity (updateQuantity (1::nat) (JStr (lit ''reset'')) (Map.empty(1 \<mapsto> 1))) 1 = 1
   \<and> updateQuantity (1::nat) (JStr (lit ''increase'')) (Map.empty(1 \<mapsto> 1)) 2 = None
   \<and> 0 \<le> quantity (updateQuantity_calls
             [(1::nat, JStr (lit ''decrease'')), (1, JStr (lit ''increase'')),
              (1, JStr (lit ''decrease'')), (1, JStr (lit ''decrease''))] Map.empty) 1"
proof -
  let ?calls = "[(1::nat, JStr (lit ''decrease'')), (1, JStr (lit ''increase'')),
              (1, JStr (lit ''decrease'')), (1, JStr (lit ''decrease''))]"
  let ?dec = "JStr (lit ''decrease'')" and ?inc = "JStr (lit ''increase'')"
  let ?m1 = "(Map.empty(1 \<mapsto> 1)) :: nat \<rightharpoonup> int" and ?m0 = "(Map.empty(1 \<mapsto> 0)) :: nat \<rightharpoonup> int"
  have q: "quantity ?m1 1 = 1" "quantity ?m0 1 = 0"
    by (simp_all add: quantity_def)
  have d: "?dec \<noteq> ?inc" "JStr (lit ''reset'') \<noteq> ?inc" "JStr (lit ''reset'') \<noteq> ?dec"
    by (simp_all add: lit_def)
  have "\<forall>q \<in> ran (updateQuantity_calls ?calls Map.empty). 0 \<le> q"
    by (rule order_quantities_nonneg [THEN conjunct1])
  then have c6: "0 \<le> quantity (updateQuantity_calls ?calls Map.empty) 1"
    by (auto simp: quantity_def ran_def split: option.splits)
  note step = order_quantities_nonneg [THEN conjunct2, THEN conjunct2, THEN conjunct1]
  note other = order_quantities_nonneg [THEN conjunct2, THEN conjunct2, THEN conjunct2, rule_format]
  have c1: "quantity (updateQuantity 1 ?dec ?m1) 1 = 0"
    using step [of 1 ?dec ?m1] q d by simp
  have c2: "quantity (updateQuantity 1 ?dec ?m0) 1 = 0"
    using step [of 1 ?dec ?m0] q d by simp
  have c3: "quantity (updateQuantity 1 ?inc ?m1) 1 = 2"
    using step [of 1 ?inc ?m1] q d by simp
  have c4: "quantity (updateQuantity 1 (JStr (lit ''reset'')) ?m1) 1 = 1"
    using step [of 1 "JStr (lit ''reset'')" ?m1] q d by simp
  have "updateQuantity 1 ?inc ?m1 2 = ?m1 2"
    by (rule other) simp
  then have c5: "updateQuantity 1 ?inc ?m1 2 = None"
    by simp
  from c1 c2 c3 c4 c5 c6 show ?thesis by blast
qed

text \<open>
  C10: both PIN forms send their request exactly when the trimmed input is four digits
  (the verifying form with a current user, that is, with its overlay open), and the
  request carries the trimmed input. Otherwise no request is sent, the error line is
  shown, and the input, the submit button and the current user stay as they are.
\<close>

theorem pin_request_iff_four_digits:
  "(snd (pm_submitPin uid pm) \<noteq> [] \<longleftrightarrow> four_digits (trim (pm_input_value pm)))
   \<and> (four_digits (trim (pm_input_value pm)) \<longrightarrow>
        snd (pm_submitPin uid pm) = [CreateUserPin uid (trim (pm_input_value pm))])
   \<and> (\<not> four_digits (trim (pm_input_value pm)) \<longrightarrow>
        snd (pm_submitPin uid pm) = []
        \<and> (fst (pm_submitPin uid pm) = pm_showError (lit ''Please enter a PIN'') pm
            \<or> fst (pm_submitPin uid pm) = pm_showError (lit ''PIN must be exactly 4 digits'') pm)
        \<and> pm_error_shown (fst (pm_submitPin uid pm))
        \<and> pm_input_value (fst (pm_submitPin uid pm)) = pm_input_value pm
        \<and> pm_submit_disabled (fst (pm_submitPin uid pm)) = pm_submit_disabled pm
        \<and> pm_submit_spinner (fst (pm_submitPin uid pm)) = pm_submit_spinner pm)
   \<and> (snd (pa_submitPin pa) \<noteq> [] \<longleftrightarrow>
        four_digits (trim (pa_input_value pa)) \<and> pa_currentUser pa \<noteq> None)
   \<and> (pa_currentUser pa = Some user \<and> four_digits (trim (pa_input_value pa)) \<longrightarrow>
        pa_submitPin pa = (pa, [VerifyPin (fst user) (trim (pa_input_value pa))]))
   \<and> (\<not> four_digits (trim (pa_input_value pa)) \<longrightarrow>
        snd (pa_submitPin pa) = []
        \<and> (fst (pa_submitPin pa) = pa_showError (lit ''Please enter a PIN'') pa
            \<or> fst (pa_submitPin pa) = pa_showError (lit ''PIN must be exactly 4 digits'') pa)
        \<and> pa_error_shown (fst (pa_submitPin pa))
        \<and> pa_input_value (fst (pa_submitPin pa)) = pa_input_value pa
        \<and> pa_currentUser (fst (pa_submitPin pa)) = pa_currentUser pa)"
  by (auto simp: pm_submitPin_def pa_submitPin_def Let_def test_four_digits_iff
      pm_showError_def pa_showError_def four_digits_def split: option.splits)

theorem pin_request_iff_four_digits_witness:
  "four_digits (trim (pm_input_value (pm_form '' 1234 '')))
   \<and> snd (pm_submitPin (JNum 7) (pm_form '' 1234 '')) = [CreateUserPin (JNum 7) (lit ''1234'')]
   \<and> \<not> four_digits (trim (pm_input_value (pm_form ''12345'')))
   \<and> snd (pm_submitPin (JNum 7) (pm_form ''12345'')) = []
   \<and> pm_error_shown (fst (pm_submitPin (JNum 7) (pm_form ''12345'')))
   \<and> pa_currentUser (pa_form ''0042'') = Some (JNum 7, lit ''Ada'')
   \<and> four_digits (trim (pa_input_value (pa_form ''0042'')))
   \<and> snd (pa_submitPin (pa_form ''0042'')) = [VerifyPin (JNum 7) (lit ''0042'')]
   \<and> \<not> four_digits (trim (pa_input_value (pa_form ''12a4'')))
   \<and> snd (pa_submitPin (pa_form ''12a4'')) = []
   \<and> pa_error_shown (fst (pa_submitPin (pa_form ''12a4'')))"
proof -
  note create = pin_request_iff_four_digits [THEN conjunct2, THEN conjunct1, rule_format]
  note create_refused =
    pin_request_iff_four_digits [THEN conjunct2, THEN conjunct2, THEN conjunct1, rule_format]
  note verify = pin_request_iff_four_digits
    [THEN conjunct2, THEN conjunct2, THEN conjunct2, THEN conjunct2, THEN conjunct1, rule_format]
  note verify_refused = pin_request_iff_four_digits
    [THEN conjunct2, THEN conjunct2, THEN conjunct2, THEN conjunct2, THEN conjunct2, rule_format]
  have g1: "four_digits (trim (pm_input_value (pm_form '' 1234 '')))"
    and t1: "trim (pm_input_value (pm_form '' 1234 '')) = lit ''1234''"
    and b1: "\<not> four_digits (trim (pm_input_value (pm_form ''12345'')))"
    and u: "pa_currentUser (pa_form ''0042'') = Some (JNum 7, lit ''Ada'')"
    and g2: "four_digits (trim (pa_input_value (pa_form ''0042'')))"
    and t2: "trim (pa_input_value (pa_form ''0042'')) = lit ''0042''"
    and b2: "\<not> four_digits (trim (pa_input_value (pa_form ''12a4'')))"
    by (simp_all add: trim_def js_ws_def pm_form_def pa_form_def lit_def four_digits_def is_digit_def)
  have c1: "snd (pm_submitPin (JNum 7) (pm_form '' 1234 '')) = [CreateUserPin (JNum 7) (lit ''1234'')]"
    using create [OF g1, of "JNum 7"] unfolding t1 .
  have c2: "snd (pm_submitPin (JNum 7) (pm_form ''12345'')) = []
    \<and> pm_error_shown (fst (pm_submitPin (JNum 7) (pm_form ''12345'')))"
    using create_refused [OF b1, of "JNum 7"] by blast
  have c3: "snd (pa_submitPin (pa_form ''0042'')) = [VerifyPin (JNum 7) (lit ''0042'')]"
    using verify [OF conjI [OF u g2]] unfolding t2 by simp
  have c4: "snd (pa_submitPin (pa_form ''12a4'')) = []
    \<and> pa_error_shown (fst (pa_submitPin (pa_form ''12a4'')))"
    using verify_refused [OF b2] by blast
  from g1 c1 b1 c2 u g2 c3 b2 c4 show ?thesis by blast
qed

end
